theory Spec2Isabelle
  imports Complex_Main "HOL-Library.Word"
begin

section \<open>The pulse wave table of \<open>DUAL_LFO/pulse8.h\<close>\<close>

text \<open>
  The header declares one object, \<open>PROGMEM byte pulse8[] = { ... }\<close>: an array of
  Arduino \<open>byte\<close>s (unsigned 8-bit values) whose size is the number of initialisers.
  The initialiser list is transcribed entry by entry, sixteen entries to a line, in
  the order of the source (the source numbers its entries 0 to 255 in comments).
\<close>

type_synonym byte = "8 word"

definition pulse8 :: "byte list" where
  "pulse8 =
    [255, 255, 255, 255, 255, 255, 255, 255, 0, 0, 0, 0, 0, 0, 0, 0,
     0, 0, 0, 0, 0, 0, 0, 0, 0, 0, 0, 0, 0, 0, 0, 0,
     0, 0, 0, 0, 0, 0, 0, 0, 0, 0, 0, 0, 0, 0, 0, 0,
     0, 0, 0, 0, 0, 0, 0, 0, 0, 0, 0, 0, 0, 0, 0, 0,
     0, 0, 0, 0, 0, 0, 0, 0, 0, 0, 0, 0, 0, 0, 0, 0,
     0, 0, 0, 0, 0, 0, 0, 0, 0, 0, 0, 0, 0, 0, 0, 0,
     0, 0, 0, 0, 0, 0, 0, 0, 0, 0, 0, 0, 0, 0, 0, 0,
     0, 0, 0, 0, 0, 0, 0, 0, 0, 0, 0, 0, 0, 0, 0, 0,
     0, 0, 0, 0, 0, 0, 0, 0, 0, 0, 0, 0, 0, 0, 0, 0,
     0, 0, 0, 0, 0, 0, 0, 0, 0, 0, 0, 0, 0, 0, 0, 0,
     0, 0, 0, 0, 0, 0, 0, 0, 0, 0, 0, 0, 0, 0, 0, 0,
     0, 0, 0, 0, 0, 0, 0, 0, 0, 0, 0, 0, 0, 0, 0, 0,
     0, 0, 0, 0, 0, 0, 0, 0, 0, 0, 0, 0, 0, 0, 0, 0,
     0, 0, 0, 0, 0, 0, 0, 0, 0, 0, 0, 0, 0, 0, 0, 0,
     0, 0, 0, 0, 0, 0, 0, 0, 0, 0, 0, 0, 0, 0, 0, 0,
     0, 0, 0, 0, 0, 0, 0, 0, 0, 0, 0, 0, 0, 0, 0, 0]"

subsection \<open>Reading the table\<close>

text \<open>
  The array is read by indexing, \<open>pulse8[i]\<close>, with a C integer index. C defines the
  read only for \<open>0 \<le> i < length\<close>; the table has no bounds handling of its own, so
  a read outside that range is \<open>None\<close> here instead of an unspecified value.
\<close>

definition lookup :: "byte list \<Rightarrow> int \<Rightarrow> byte option" where
  "lookup tbl i = (if 0 \<le> i \<and> i < int (length tbl) then Some (tbl ! nat i) else None)"

definition sample :: "int \<Rightarrow> byte option" where
  "sample i = lookup pulse8 i"

subsection \<open>Storing the table elsewhere\<close>

text \<open>
  Modelled from the spec: the header has no serialiser; the specification only says
  that a copy of the table may be persisted or transmitted by "any binary
  serialization preserving the exact 256 ordered byte values". \<open>serialize\<close> writes a
  table as the sequence of its byte values, in table order, one number per entry.
\<close>

definition serialize :: "byte list \<Rightarrow> nat list" where
  "serialize tbl = map unat tbl"

text \<open>
  Modelled from the spec: the header has no deserialiser either. \<open>deserialize\<close> reads
  a sequence of byte values back into bytes, in the same order.
\<close>

definition deserialize :: "nat list \<Rightarrow> byte list" where
  "deserialize vs = map word_of_nat vs"

section \<open>Shape of the table\<close>

lemma pulse8_shape: "pulse8 = replicate 8 255 @ replicate 248 0"
  unfolding pulse8_def by code_simp

lemma length_pulse8: "length pulse8 = 256"
  by (simp add: pulse8_shape)

lemma sample_high: "0 \<le> i \<Longrightarrow> i < 8 \<Longrightarrow> sample i = Some 255"
  by (simp add: sample_def lookup_def pulse8_shape nth_append)

lemma sample_low: "8 \<le> i \<Longrightarrow> i < 256 \<Longrightarrow> sample i = Some 0"
  by (simp add: sample_def lookup_def pulse8_shape nth_append)

lemma sample_outside: "i < 0 \<or> 256 \<le> i \<Longrightarrow> sample i = None"
  by (auto simp add: sample_def lookup_def length_pulse8)

lemma lookup_pulse8_Some:
  "0 \<le> i \<Longrightarrow> i < 256 \<Longrightarrow> \<exists>b. lookup pulse8 i = Some b"
  by (simp add: lookup_def length_pulse8)

section \<open>The high and the low phase\<close>

text \<open>
  C1: for every index \<open>i\<close> with \<open>0 \<le> i < 8\<close>, the read \<open>sample i\<close> of the table
  returns the byte 255.
\<close>

theorem sample_first_eight_255:
  assumes "0 \<le> i" and "i < 8"
  shows "sample i = Some 255"
  using assms by (rule sample_high)

theorem sample_first_eight_255_witness:
  "(0::int) \<le> 7 \<and> (7::int) < 8 \<and> sample 7 = Some 255"
  using sample_first_eight_255 [of 7] by simp

text \<open>
  C2: for every index \<open>i\<close> with \<open>8 \<le> i < 256\<close>, the read \<open>sample i\<close> of the table
  returns the byte 0.
\<close>

theorem sample_rest_0:
  assumes "8 \<le> i" and "i < 256"
  shows "sample i = Some 0"
  using assms by (rule sample_low)

theorem sample_rest_0_witness:
  "(8::int) \<le> 8 \<and> (8::int) < 256 \<and> sample 8 = Some 0"
  using sample_rest_0 [of 8] by simp

text \<open>
  C3: the table \<open>pulse8\<close> has exactly 256 entries.
\<close>

theorem pulse8_length_256: "length pulse8 = 256"
  by (simp add: pulse8_shape)

text \<open>
  C4: exactly 8 of the 256 entries of the table are 255, the entries that are not
  255 are 248 zeros, and so the share of full-scale entries in one period, the duty
  cycle, is 8/256 = 3.125 percent.
\<close>

theorem pulse8_duty_cycle:
  "length (filter (\<lambda>b. b = 255) pulse8) = 8
   \<and> filter (\<lambda>b. b \<noteq> 255) pulse8 = replicate 248 0
   \<and> length (filter (\<lambda>b. b = 0) pulse8) = 248
   \<and> length pulse8 = 256
   \<and> real (length (filter (\<lambda>b. b = 255) pulse8)) / real (length pulse8) = 8 / 256
   \<and> real (length (filter (\<lambda>b. b = 255) pulse8)) / real (length pulse8) = 3.125 / 100"
  by (simp add: pulse8_shape)

section \<open>Reading through a wrapped index\<close>

text \<open>
  C5: for the index sequence 0, 4, 7, 8, 100, 255, 256, where the consumer reduces
  each index modulo 256 before the read (so that 256 becomes 0), the values read are
  255, 255, 255, 0, 0, 0, 255.
\<close>

theorem sample_scenario:
  "(256::int) mod 256 = 0
   \<and> map (\<lambda>i. sample (i mod 256)) [0, 4, 7, 8, 100, 255, 256]
     = map Some [255, 255, 255, 0, 0, 0, 255]"
  by (simp add: sample_high sample_low)

text \<open>
  C9: under cyclic indexing the table is periodic with period 256: for every integer
  \<open>n\<close>, the reads at \<open>n mod 256\<close> and at \<open>(n + 256) mod 256\<close> return the same byte,
  and so do the reads any whole number \<open>k\<close> of periods apart; reading 256
  consecutive wrapped indices from the start of any period returns the table itself.
\<close>

theorem sample_periodic:
  "sample (n mod 256) = sample ((n + 256) mod 256)
   \<and> sample ((n + 256 * k) mod 256) = sample (n mod 256)
   \<and> (\<exists>b. sample (n mod 256) = Some b)
   \<and> map (\<lambda>j. sample ((256 * k + int j) mod 256)) [0..<256] = map Some pulse8"
proof -
  have wrap: "(256 * k + int j) mod 256 = int j" if "j < 256" for j
    using that by simp
  have "map (\<lambda>j. sample ((256 * k + int j) mod 256)) [0..<256]
      = map (\<lambda>j. Some (pulse8 ! j)) [0..<length pulse8]"
    by (simp add: wrap sample_def lookup_def length_pulse8)
  also have "\<dots> = map Some (map (\<lambda>j. pulse8 ! j) [0..<length pulse8])"
    by simp
  also have "\<dots> = map Some pulse8"
    by (simp only: map_nth)
  finally have period: "map (\<lambda>j. sample ((256 * k + int j) mod 256)) [0..<256] = map Some pulse8" .
  have "\<exists>b. sample (n mod 256) = Some b"
    unfolding sample_def by (rule lookup_pulse8_Some) simp_all
  moreover have "(n + 256 * k) mod 256 = n mod 256"
    by simp
  ultimately show ?thesis
    using period by simp
qed

section \<open>Reads never fail in range\<close>

text \<open>
  C8: for every index \<open>i\<close> with \<open>0 \<le> i < 256\<close> the read cannot fail: \<open>sample i\<close>
  is some byte and is not the out-of-bounds result \<open>None\<close>.
\<close>

theorem sample_in_range_total:
  assumes "0 \<le> i" and "i < 256"
  shows "(\<exists>b. sample i = Some b) \<and> sample i \<noteq> None"
  using lookup_pulse8_Some [OF assms] by (auto simp add: sample_def)

theorem sample_in_range_total_witness:
  "(0::int) \<le> 255 \<and> (255::int) < 256 \<and> (\<exists>b. sample 255 = Some b) \<and> sample 255 \<noteq> None"
  using sample_in_range_total [of 255] by simp

section \<open>A copy of the table\<close>

text \<open>
  C7: writing the table \<open>pulse8\<close> out as its 256 byte values in order and reading
  that sequence back gives the table again, entry for entry.
\<close>

theorem pulse8_roundtrip:
  "deserialize (serialize pulse8) = pulse8
   \<and> length (serialize pulse8) = 256
   \<and> serialize pulse8 = replicate 8 255 @ replicate 248 0"
  by (simp add: serialize_def deserialize_def pulse8_shape)

section \<open>One falling edge\<close>

text \<open>
  C10: within one period the table never rises: for all indices \<open>i \<le> j\<close> in
  \<open>0 \<le> i\<close>, \<open>j < 256\<close> the byte read at \<open>i\<close> is at least the byte read at \<open>j\<close>
  (bytes compared as unsigned numbers). The only place where an entry is smaller
  than its predecessor is entry 8, and no entry is larger than its predecessor.
\<close>

theorem sample_nonincreasing:
  assumes "0 \<le> i" and "i \<le> j" and "j < 256"
  shows "(\<exists>a b. sample i = Some a \<and> sample j = Some b \<and> b \<le> a)
         \<and> filter (\<lambda>k. pulse8 ! k < pulse8 ! (k - 1)) [1..<256] = [8]
         \<and> filter (\<lambda>k. pulse8 ! (k - 1) < pulse8 ! k) [1..<256] = []"
proof -
  have mono: "\<exists>a b. sample i = Some a \<and> sample j = Some b \<and> b \<le> a"
  proof (cases "j < 8")
    case True
    then show ?thesis using assms by (simp add: sample_high)
  next
    case False
    then have "sample j = Some 0" using assms by (simp add: sample_low)
    moreover have "\<exists>a. sample i = Some a"
      using assms lookup_pulse8_Some [of i] by (simp add: sample_def)
    ultimately show ?thesis by auto
  qed
  have falling: "filter (\<lambda>k. pulse8 ! k < pulse8 ! (k - 1)) [1..<256] = [8]"
    by code_simp
  have rising: "filter (\<lambda>k. pulse8 ! (k - 1) < pulse8 ! k) [1..<256] = []"
    by code_simp
  show ?thesis using mono falling rising by simp
qed

theorem sample_nonincreasing_witness:
  "(0::int) \<le> 7 \<and> (7::int) \<le> 8 \<and> (8::int) < 256
   \<and> (\<exists>a b. sample 7 = Some a \<and> sample 8 = Some b \<and> b \<le> a)
   \<and> filter (\<lambda>k. pulse8 ! k < pulse8 ! (k - 1)) [1..<256] = [8]
   \<and> filter (\<lambda>k. pulse8 ! (k - 1) < pulse8 ! k) [1..<256] = []"
  using sample_nonincreasing [of 7 8] by simp

end
